theory Spec2Isabelle
  imports Complex_Main "HOL-Library.Log_Nat"
begin

section \<open>Values of the host language\<close>

text \<open>
  The calculator of \<^verbatim>\<open>main.py\<close> computes with Python objects. A Python \<^verbatim>\<open>float\<close> is a
  binary64 number: a finite one is identified with the rational it denotes (\<open>Finite 0\<close> is
  \<^verbatim>\<open>0.0\<close>), the other constructors are \<^verbatim>\<open>-0.0\<close>, \<^verbatim>\<open>inf\<close>, \<^verbatim>\<open>-inf\<close> and \<^verbatim>\<open>nan\<close>. What a float
  is (zero, negative, integral, not a number) is decided here; the rounded result of an
  arithmetic operation on floats is the platform's and is taken from the \<open>host\<close> below.
\<close>

datatype pyfloat = Finite rat | NegZero | PosInf | NegInf | NaN

fun is_zero :: "pyfloat \<Rightarrow> bool" where
  "is_zero (Finite q) = (q = 0)"
| "is_zero NegZero = True"
| "is_zero PosInf = False"
| "is_zero NegInf = False"
| "is_zero NaN = False"

fun is_finite :: "pyfloat \<Rightarrow> bool" where
  "is_finite (Finite q) = True"
| "is_finite NegZero = True"
| "is_finite PosInf = False"
| "is_finite NegInf = False"
| "is_finite NaN = False"

fun is_nan :: "pyfloat \<Rightarrow> bool" where
  "is_nan (Finite q) = False"
| "is_nan NegZero = False"
| "is_nan PosInf = False"
| "is_nan NegInf = False"
| "is_nan NaN = True"

text \<open>\<open>negative x\<close> is the comparison \<^verbatim>\<open>x < 0.0\<close>: false of both zeros and of \<^verbatim>\<open>nan\<close>.\<close>

fun negative :: "pyfloat \<Rightarrow> bool" where
  "negative (Finite q) = (q < 0)"
| "negative NegZero = False"
| "negative PosInf = False"
| "negative NegInf = True"
| "negative NaN = False"

text \<open>\<open>is_integral x\<close> is the test \<^verbatim>\<open>x == floor(x)\<close> of a finite float.\<close>

fun is_integral :: "pyfloat \<Rightarrow> bool" where
  "is_integral (Finite q) = (of_int \<lfloor>q\<rfloor> = q)"
| "is_integral NegZero = True"
| "is_integral PosInf = True"
| "is_integral NegInf = True"
| "is_integral NaN = False"

fun float_neg :: "pyfloat \<Rightarrow> pyfloat" where
  "float_neg (Finite q) = (if q = 0 then NegZero else Finite (- q))"
| "float_neg NegZero = Finite 0"
| "float_neg PosInf = NegInf"
| "float_neg NegInf = PosInf"
| "float_neg NaN = NaN"

text \<open>
  The objects an evaluation can produce: \<^verbatim>\<open>int\<close> (unbounded), \<^verbatim>\<open>bool\<close> (a subclass of
  \<^verbatim>\<open>int\<close>), \<^verbatim>\<open>float\<close>, \<^verbatim>\<open>complex\<close> (real and imaginary part) and \<^verbatim>\<open>list\<close>.
\<close>

datatype pyval =
    VInt int
  | VBool bool
  | VFloat pyfloat
  | VComplex pyfloat pyfloat
  | VList "pyval list"

text \<open>
  Exceptions. \<open>SafeEvalError\<close> is the class the program defines, with its message; the
  others are Python's built-in exceptions, raised by the operators and the library
  functions the evaluator calls (their messages are left out). Exhaustion of memory or of
  the interpreter's stack is outside the model.
\<close>

datatype exc =
    SafeEvalError string
  | ZeroDivisionError
  | ValueError
  | TypeError
  | OverflowError

fun is_SafeEvalError :: "exc + 'a \<Rightarrow> bool" where
  "is_SafeEvalError (Inl (SafeEvalError m)) = True"
| "is_SafeEvalError (Inl ZeroDivisionError) = False"
| "is_SafeEvalError (Inl ValueError) = False"
| "is_SafeEvalError (Inl TypeError) = False"
| "is_SafeEvalError (Inl OverflowError) = False"
| "is_SafeEvalError (Inr v) = False"

section \<open>The syntax tree\<close>

text \<open>
  The operator classes of Python's \<^verbatim>\<open>ast\<close> module (\<^verbatim>\<open>ast.Pow\<close> and \<^verbatim>\<open>ast.Not\<close> carry a
  suffix here), the values an \<^verbatim>\<open>ast.Constant\<close> can hold, and the nodes. A node of a class
  the evaluator has no \<^verbatim>\<open>visit_\<close> method for (\<^verbatim>\<open>Compare\<close>, \<^verbatim>\<open>Attribute\<close>, \<^verbatim>\<open>Lambda\<close>,
  \<^verbatim>\<open>Subscript\<close>, \<^verbatim>\<open>Starred\<close>, ...) is \<open>Other\<close> with its class name. A \<^verbatim>\<open>Call\<close> has its callee,
  its positional arguments and its keyword arguments (name, or none for \<^verbatim>\<open>**kw\<close>, and
  value).
\<close>

datatype operator =
    Add | Sub | Mult | MatMult | Div | Mod | Pow_op | LShift | RShift
  | BitOr | BitXor | BitAnd | FloorDiv
  | Invert | Not_op | UAdd | USub

datatype constval =
    CInt int
  | CBool bool
  | CFloat pyfloat
  | CComplex pyfloat
  | CStr string
  | CBytes string
  | CNone
  | CEllipsis

datatype node =
    Expression node
  | BinOp node operator node
  | UnaryOp operator node
  | Call node "node list" "(string option \<times> node) list"
  | Num pyval
  | Constant constval
  | Name string
  | List "node list"
  | Other string

fun op_name :: "operator \<Rightarrow> string" where
  "op_name Add = ''Add''"
| "op_name Sub = ''Sub''"
| "op_name Mult = ''Mult''"
| "op_name MatMult = ''MatMult''"
| "op_name Div = ''Div''"
| "op_name Mod = ''Mod''"
| "op_name Pow_op = ''Pow''"
| "op_name LShift = ''LShift''"
| "op_name RShift = ''RShift''"
| "op_name BitOr = ''BitOr''"
| "op_name BitXor = ''BitXor''"
| "op_name BitAnd = ''BitAnd''"
| "op_name FloorDiv = ''FloorDiv''"
| "op_name Invert = ''Invert''"
| "op_name Not_op = ''Not''"
| "op_name UAdd = ''UAdd''"
| "op_name USub = ''USub''"

text \<open>\<^verbatim>\<open>type(node.value).__name__\<close> of a constant.\<close>

fun type_name :: "constval \<Rightarrow> string" where
  "type_name (CInt i) = ''int''"
| "type_name (CBool b) = ''bool''"
| "type_name (CFloat x) = ''float''"
| "type_name (CComplex x) = ''complex''"
| "type_name (CStr s) = ''str''"
| "type_name (CBytes s) = ''bytes''"
| "type_name CNone = ''NoneType''"
| "type_name CEllipsis = ''ellipsis''"

section \<open>The session and the host\<close>

text \<open>
  A \<^verbatim>\<open>Calculator\<close> owns one float, \<^verbatim>\<open>self.memory\<close>. Everything that runs during an
  evaluation takes the session and returns it with its result, so that a write to the
  memory would show.
\<close>

record calculator =
  memory :: pyfloat

type_synonym 'a outcome = "(exc + 'a) \<times> calculator"

text \<open>
  An entry of the dictionary \<^verbatim>\<open>names\<close> given to \<^verbatim>\<open>SafeEvaluator\<close>: an object that is not
  callable, or a callable taking positional arguments.
\<close>

datatype entry =
    Value pyval
  | Function "pyval list \<Rightarrow> calculator \<Rightarrow> pyval outcome"

type_synonym names = "string \<Rightarrow> entry option"

text \<open>
  What \<^verbatim>\<open>ast.parse(expr, mode="eval")\<close> does: it returns a tree (an \<^verbatim>\<open>ast.Expression\<close>),
  raises \<^verbatim>\<open>SyntaxError\<close> (with its text), or raises something else.
\<close>

datatype parsed =
    Parsed node
  | SyntaxError string
  | ParseRaises exc

text \<open>
  The library callables the program reaches without the model fixing their results.
\<close>

datatype builtin =
    MathSin | MathCos | MathTan | MathAsin | MathAcos | MathAtan
  | MathRadians | MathDegrees
  | MathLog | MathLog10 | MathFloor | MathCeil | MathFactorial
  | BuiltinAbs | BuiltinRound | BuiltinInt | BuiltinSum

text \<open>
  The host: the parts of the Python runtime whose results the model takes as given.
  \<^item> \<open>parse\<close>: \<^verbatim>\<open>ast.parse\<close> in mode \<^verbatim>\<open>eval\<close>;
  \<^item> \<open>float_arith\<close>: the rounded result of \<^verbatim>\<open>+ - * / // %\<close> on two floats (for the last
    three, with a divisor that is not zero);
  \<^item> \<open>float_power\<close>: \<^verbatim>\<open>x ** y\<close> on floats where the result is a float, \<open>None\<close> when
    it overflows;
  \<^item> \<open>complex_power\<close>: the complex power of two floats, \<open>None\<close> when it overflows;
  \<^item> \<open>int_true_divide\<close>: the correctly rounded quotient of two ints, \<open>None\<close> when it
    is too large for a float;
  \<^item> \<open>complex_arith\<close>: a binary operator with a complex operand;
  \<^item> \<open>float_sqrt\<close>: the square root of a float that is not negative;
  \<^item> \<open>library\<close>: a call of one of the \<open>builtin\<close> callables with positional arguments.
\<close>

record host =
  parse :: "string \<Rightarrow> parsed"
  float_arith :: "operator \<Rightarrow> pyfloat \<Rightarrow> pyfloat \<Rightarrow> pyfloat"
  float_power :: "pyfloat \<Rightarrow> pyfloat \<Rightarrow> pyfloat option"
  complex_power :: "pyfloat \<Rightarrow> pyfloat \<Rightarrow> (pyfloat \<times> pyfloat) option"
  int_true_divide :: "int \<Rightarrow> int \<Rightarrow> pyfloat option"
  complex_arith :: "operator \<Rightarrow> pyval \<Rightarrow> pyval \<Rightarrow> exc + pyval"
  float_sqrt :: "pyfloat \<Rightarrow> pyfloat"
  library :: "builtin \<Rightarrow> pyval list \<Rightarrow> exc + pyval"

section \<open>Numbers and operators\<close>

text \<open>
  The conversion of an \<^verbatim>\<open>int\<close> to a \<^verbatim>\<open>float\<close>: exact below \<open>2 ^ 53\<close>, rounded to 53 bits
  (half to even) above, and \<^verbatim>\<open>OverflowError\<close> (\<open>None\<close>) when the rounded value reaches
  \<open>2 ^ 1024\<close>.
\<close>

definition int_to_float :: "int \<Rightarrow> pyfloat option" where
  "int_to_float i =
     (let a = \<bar>i\<bar> in
      if a < 2 ^ 53 then Some (Finite (of_int i))
      else
        let s = nat (bitlen a - 53);
            q = a div 2 ^ s;
            r = a mod 2 ^ s;
            q' = (if 2 ^ (s - 1) < r \<or> (r = 2 ^ (s - 1) \<and> odd q) then q + 1 else q);
            v = q' * 2 ^ s
        in if 2 ^ 1024 \<le> v then None else Some (Finite (of_int (sgn i * v))))"

text \<open>\<^verbatim>\<open>float(x)\<close>, which is also how the \<^verbatim>\<open>math\<close> functions read their argument.\<close>

fun py_float :: "pyval \<Rightarrow> exc + pyfloat" where
  "py_float (VFloat x) = Inr x"
| "py_float (VInt i) = (case int_to_float i of None \<Rightarrow> Inl OverflowError | Some x \<Rightarrow> Inr x)"
| "py_float (VBool b) = Inr (Finite (if b then 1 else 0))"
| "py_float (VComplex re im) = Inl TypeError"
| "py_float (VList xs) = Inl TypeError"

text \<open>The integer an \<^verbatim>\<open>int\<close> or a \<^verbatim>\<open>bool\<close> stands for.\<close>

fun int_of :: "pyval \<Rightarrow> int option" where
  "int_of (VInt i) = Some i"
| "int_of (VBool b) = Some (if b then 1 else 0)"
| "int_of (VFloat x) = None"
| "int_of (VComplex re im) = None"
| "int_of (VList xs) = None"

fun is_list :: "pyval \<Rightarrow> bool" where
  "is_list (VList xs) = True"
| "is_list (VInt i) = False"
| "is_list (VBool b) = False"
| "is_list (VFloat x) = False"
| "is_list (VComplex re im) = False"

fun is_complex :: "pyval \<Rightarrow> bool" where
  "is_complex (VComplex re im) = True"
| "is_complex (VInt i) = False"
| "is_complex (VBool b) = False"
| "is_complex (VFloat x) = False"
| "is_complex (VList xs) = False"

text \<open>\<^verbatim>\<open>isinstance(v, (int, float))\<close>.\<close>

fun is_int_or_float :: "pyval \<Rightarrow> bool" where
  "is_int_or_float (VInt i) = True"
| "is_int_or_float (VBool b) = True"
| "is_int_or_float (VFloat x) = True"
| "is_int_or_float (VComplex re im) = False"
| "is_int_or_float (VList xs) = False"

text \<open>
  \<^verbatim>\<open>x ** y\<close> on two floats. A zero exponent gives \<^verbatim>\<open>1.0\<close>; among finite operands, a zero
  base with a negative exponent raises \<^verbatim>\<open>ZeroDivisionError\<close>, and a negative base with an
  exponent that is not integral is handed to the complex power; everything else is the
  host's float power, which can overflow.
\<close>

definition float_pow :: "host \<Rightarrow> pyfloat \<Rightarrow> pyfloat \<Rightarrow> exc + pyval" where
  "float_pow h iv iw =
     (if is_zero iw then Inr (VFloat (Finite 1))
      else if is_finite iv \<and> is_finite iw \<and> is_zero iv \<and> negative iw then Inl ZeroDivisionError
      else if is_finite iv \<and> is_finite iw \<and> negative iv \<and> \<not> is_integral iw then
        (case complex_power h iv iw of
           None \<Rightarrow> Inl OverflowError
         | Some z \<Rightarrow> Inr (VComplex (fst z) (snd z)))
      else
        (case float_power h iv iw of
           None \<Rightarrow> Inl OverflowError
         | Some x \<Rightarrow> Inr (VFloat x)))"

text \<open>The seven binary operators on two floats.\<close>

fun float_binop :: "host \<Rightarrow> operator \<Rightarrow> pyfloat \<Rightarrow> pyfloat \<Rightarrow> exc + pyval" where
  "float_binop h Add x y = Inr (VFloat (float_arith h Add x y))"
| "float_binop h Sub x y = Inr (VFloat (float_arith h Sub x y))"
| "float_binop h Mult x y = Inr (VFloat (float_arith h Mult x y))"
| "float_binop h Div x y =
     (if is_zero y then Inl ZeroDivisionError else Inr (VFloat (float_arith h Div x y)))"
| "float_binop h FloorDiv x y =
     (if is_zero y then Inl ZeroDivisionError else Inr (VFloat (float_arith h FloorDiv x y)))"
| "float_binop h Mod x y =
     (if is_zero y then Inl ZeroDivisionError else Inr (VFloat (float_arith h Mod x y)))"
| "float_binop h Pow_op x y = float_pow h x y"
| "float_binop h _ x y = Inl TypeError"

text \<open>
  The seven binary operators on two ints. \<^verbatim>\<open>//\<close> and \<^verbatim>\<open>%\<close> round towards minus infinity,
  as \<open>div\<close> and \<open>mod\<close> do; a negative exponent makes \<^verbatim>\<open>**\<close> a float power.
\<close>

fun int_binop :: "host \<Rightarrow> operator \<Rightarrow> int \<Rightarrow> int \<Rightarrow> exc + pyval" where
  "int_binop h Add i j = Inr (VInt (i + j))"
| "int_binop h Sub i j = Inr (VInt (i - j))"
| "int_binop h Mult i j = Inr (VInt (i * j))"
| "int_binop h Div i j =
     (if j = 0 then Inl ZeroDivisionError
      else case int_true_divide h i j of
             None \<Rightarrow> Inl OverflowError
           | Some x \<Rightarrow> Inr (VFloat x))"
| "int_binop h FloorDiv i j = (if j = 0 then Inl ZeroDivisionError else Inr (VInt (i div j)))"
| "int_binop h Mod i j = (if j = 0 then Inl ZeroDivisionError else Inr (VInt (i mod j)))"
| "int_binop h Pow_op i j =
     (if 0 \<le> j then Inr (VInt (i ^ nat j))
      else case int_to_float i of
             None \<Rightarrow> Inl OverflowError
           | Some x \<Rightarrow>
               (case int_to_float j of
                  None \<Rightarrow> Inl OverflowError
                | Some y \<Rightarrow> float_pow h x y))"
| "int_binop h _ i j = Inl TypeError"

text \<open>
  With a list operand: \<^verbatim>\<open>+\<close> concatenates two lists, \<^verbatim>\<open>*\<close> repeats a list an \<^verbatim>\<open>int\<close>
  number of times (none for a negative number; a number that does not fit the 64-bit index
  type is an \<^verbatim>\<open>OverflowError\<close>), everything else is a \<^verbatim>\<open>TypeError\<close>.
\<close>

definition list_repeat :: "pyval list \<Rightarrow> pyval \<Rightarrow> exc + pyval" where
  "list_repeat xs n =
     (case int_of n of
        Some k \<Rightarrow>
          if k < - (2 ^ 63) \<or> 2 ^ 63 \<le> k then Inl OverflowError
          else Inr (VList (concat (replicate (nat k) xs)))
      | None \<Rightarrow> Inl TypeError)"

definition list_binop :: "operator \<Rightarrow> pyval \<Rightarrow> pyval \<Rightarrow> exc + pyval" where
  "list_binop op a b =
     (if op = Add then
        (case a of
           VList xs \<Rightarrow> (case b of VList ys \<Rightarrow> Inr (VList (xs @ ys)) | _ \<Rightarrow> Inl TypeError)
         | _ \<Rightarrow> Inl TypeError)
      else if op = Mult then
        (case a of
           VList xs \<Rightarrow> list_repeat xs b
         | _ \<Rightarrow> (case b of VList ys \<Rightarrow> list_repeat ys a | _ \<Rightarrow> Inl TypeError))
      else Inl TypeError)"

text \<open>
  A binary operator of \<^verbatim>\<open>operator\<close> on two objects: lists first, then complex numbers
  (the host's), then two ints, then floats, each \<^verbatim>\<open>int\<close> converted.
\<close>

definition arith :: "host \<Rightarrow> operator \<Rightarrow> pyval \<Rightarrow> pyval \<Rightarrow> exc + pyval" where
  "arith h op a b =
     (if is_list a \<or> is_list b then list_binop op a b
      else if is_complex a \<or> is_complex b then complex_arith h op a b
      else
        (case (int_of a, int_of b) of
           (Some i, Some j) \<Rightarrow> int_binop h op i j
         | _ \<Rightarrow>
             (case py_float a of
                Inl e \<Rightarrow> Inl e
              | Inr x \<Rightarrow>
                  (case py_float b of
                     Inl e \<Rightarrow> Inl e
                   | Inr y \<Rightarrow> float_binop h op x y))))"

text \<open>\<^verbatim>\<open>operator.neg\<close> and \<^verbatim>\<open>operator.pos\<close>.\<close>

fun operator_neg :: "pyval \<Rightarrow> exc + pyval" where
  "operator_neg (VInt i) = Inr (VInt (- i))"
| "operator_neg (VBool b) = Inr (VInt (if b then - 1 else 0))"
| "operator_neg (VFloat x) = Inr (VFloat (float_neg x))"
| "operator_neg (VComplex re im) = Inr (VComplex (float_neg re) (float_neg im))"
| "operator_neg (VList xs) = Inl TypeError"

fun operator_pos :: "pyval \<Rightarrow> exc + pyval" where
  "operator_pos (VInt i) = Inr (VInt i)"
| "operator_pos (VBool b) = Inr (VInt (if b then 1 else 0))"
| "operator_pos (VFloat x) = Inr (VFloat x)"
| "operator_pos (VComplex re im) = Inr (VComplex re im)"
| "operator_pos (VList xs) = Inl TypeError"

text \<open>A callable of two, or of one, positional parameters, called with \<open>args\<close>.\<close>

definition binary :: "(pyval \<Rightarrow> pyval \<Rightarrow> exc + pyval) \<Rightarrow> pyval list \<Rightarrow> exc + pyval" where
  "binary f args = (case args of [a, b] \<Rightarrow> f a b | _ \<Rightarrow> Inl TypeError)"

definition unary :: "(pyval \<Rightarrow> exc + pyval) \<Rightarrow> pyval list \<Rightarrow> exc + pyval" where
  "unary f args = (case args of [a] \<Rightarrow> f a | _ \<Rightarrow> Inl TypeError)"

text \<open>The dictionary \<^verbatim>\<open>SafeEvaluator.ALLOWED_OPERATORS\<close>, from operator class to callable.\<close>

fun ALLOWED_OPERATORS :: "host \<Rightarrow> operator \<Rightarrow> (pyval list \<Rightarrow> exc + pyval) option" where
  "ALLOWED_OPERATORS h Add = Some (binary (arith h Add))"
| "ALLOWED_OPERATORS h Sub = Some (binary (arith h Sub))"
| "ALLOWED_OPERATORS h Mult = Some (binary (arith h Mult))"
| "ALLOWED_OPERATORS h Div = Some (binary (arith h Div))"
| "ALLOWED_OPERATORS h Pow_op = Some (binary (arith h Pow_op))"
| "ALLOWED_OPERATORS h Mod = Some (binary (arith h Mod))"
| "ALLOWED_OPERATORS h FloorDiv = Some (binary (arith h FloorDiv))"
| "ALLOWED_OPERATORS h USub = Some (unary operator_neg)"
| "ALLOWED_OPERATORS h UAdd = Some (unary operator_pos)"
| "ALLOWED_OPERATORS h MatMult = None"
| "ALLOWED_OPERATORS h LShift = None"
| "ALLOWED_OPERATORS h RShift = None"
| "ALLOWED_OPERATORS h BitOr = None"
| "ALLOWED_OPERATORS h BitXor = None"
| "ALLOWED_OPERATORS h BitAnd = None"
| "ALLOWED_OPERATORS h Invert = None"
| "ALLOWED_OPERATORS h Not_op = None"

section \<open>The evaluator\<close>

text \<open>
  \<^verbatim>\<open>SafeEvaluator.visit\<close> looks the method \<^verbatim>\<open>visit_<class name>\<close> up and raises
  \<^verbatim>\<open>SafeEvalError\<close> when there is none; the methods are the equations below, one per
  class. \<open>visit_all\<close> is the list comprehension \<^verbatim>\<open>[self.visit(x) for x in xs]\<close>: it stops
  at the first element that raises.
\<close>

fun visit :: "host \<Rightarrow> names \<Rightarrow> node \<Rightarrow> calculator \<Rightarrow> pyval outcome"
  and visit_all :: "host \<Rightarrow> names \<Rightarrow> node list \<Rightarrow> calculator \<Rightarrow> (pyval list) outcome"
where
  "visit h ns (Expression body) c = visit h ns body c"
| "visit h ns (BinOp l op r) c =
     (case visit h ns l c of
        (Inl e, c1) \<Rightarrow> (Inl e, c1)
      | (Inr left, c1) \<Rightarrow>
          (case visit h ns r c1 of
             (Inl e, c2) \<Rightarrow> (Inl e, c2)
           | (Inr right, c2) \<Rightarrow>
               (case ALLOWED_OPERATORS h op of
                  Some f \<Rightarrow> (f [left, right], c2)
                | None \<Rightarrow> (Inl (SafeEvalError (''Operator not allowed: '' @ op_name op)), c2))))"
| "visit h ns (UnaryOp op x) c =
     (case visit h ns x c of
        (Inl e, c1) \<Rightarrow> (Inl e, c1)
      | (Inr operand, c1) \<Rightarrow>
          (case ALLOWED_OPERATORS h op of
             Some f \<Rightarrow> (f [operand], c1)
           | None \<Rightarrow> (Inl (SafeEvalError (''Unary operator not allowed: '' @ op_name op)), c1)))"
| "visit h ns (Call func args keywords) c =
     (case func of
        Name func_name \<Rightarrow>
          (case ns func_name of
             Some (Function f) \<Rightarrow>
               (case visit_all h ns args c of
                  (Inl e, c1) \<Rightarrow> (Inl e, c1)
                | (Inr vs, c1) \<Rightarrow> f vs c1)
           | _ \<Rightarrow> (Inl (SafeEvalError (''Function not allowed: '' @ func_name)), c))
      | _ \<Rightarrow> (Inl (SafeEvalError ''Only direct function calls allowed (no attributes).''), c))"
| "visit h ns (Num n) c = (Inr n, c)"
| "visit h ns (Constant v) c =
     (case v of
        CInt i \<Rightarrow> (Inr (VInt i), c)
      | CBool b \<Rightarrow> (Inr (VBool b), c)
      | CFloat x \<Rightarrow> (Inr (VFloat x), c)
      | _ \<Rightarrow> (Inl (SafeEvalError (''Constants of type '' @ type_name v @ '' not allowed'')), c))"
| "visit h ns (Name ident) c =
     (case ns ident of
        Some (Value val) \<Rightarrow>
          (if is_int_or_float val then (Inr val, c)
           else (Inl (SafeEvalError (''Name '' @ [CHR 0x27] @ ident @ [CHR 0x27]
                                      @ '' is not a numeric constant'')), c))
      | Some (Function f) \<Rightarrow>
          (Inl (SafeEvalError (''Name '' @ [CHR 0x27] @ ident @ [CHR 0x27]
                                @ '' is not a numeric constant'')), c)
      | None \<Rightarrow> (Inl (SafeEvalError (''Name not allowed: '' @ ident)), c))"
| "visit h ns (List elts) c =
     (case visit_all h ns elts c of
        (Inl e, c1) \<Rightarrow> (Inl e, c1)
      | (Inr vs, c1) \<Rightarrow> (Inr (VList vs), c1))"
| "visit h ns (Other cls) c = (Inl (SafeEvalError (''Unsupported expression: '' @ cls)), c)"
| "visit_all h ns [] c = (Inr [], c)"
| "visit_all h ns (x # xs) c =
     (case visit h ns x c of
        (Inl e, c1) \<Rightarrow> (Inl e, c1)
      | (Inr v, c1) \<Rightarrow>
          (case visit_all h ns xs c1 of
             (Inl e, c2) \<Rightarrow> (Inl e, c2)
           | (Inr vs, c2) \<Rightarrow> (Inr (v # vs), c2)))"

section \<open>The calculator\<close>

text \<open>A library function: it returns or raises, and leaves the session alone.\<close>

definition stateless :: "(pyval list \<Rightarrow> exc + pyval) \<Rightarrow> pyval list \<Rightarrow> calculator \<Rightarrow> pyval outcome" where
  "stateless f args c = (f args, c)"

text \<open>
  \<^verbatim>\<open>lambda x: math.f(math.radians(x))\<close>, \<^verbatim>\<open>lambda x: math.degrees(math.f(x))\<close> and
  \<^verbatim>\<open>lambda n: math.factorial(int(n))\<close>: one parameter each, so any other number of
  arguments is a \<^verbatim>\<open>TypeError\<close> of the call.
\<close>

definition of_degrees :: "host \<Rightarrow> builtin \<Rightarrow> pyval list \<Rightarrow> exc + pyval" where
  "of_degrees h f args =
     (case args of
        [x] \<Rightarrow> (case library h MathRadians [x] of Inl e \<Rightarrow> Inl e | Inr r \<Rightarrow> library h f [r])
      | _ \<Rightarrow> Inl TypeError)"

definition to_degrees :: "host \<Rightarrow> builtin \<Rightarrow> pyval list \<Rightarrow> exc + pyval" where
  "to_degrees h f args =
     (case args of
        [x] \<Rightarrow> (case library h f [x] of Inl e \<Rightarrow> Inl e | Inr r \<Rightarrow> library h MathDegrees [r])
      | _ \<Rightarrow> Inl TypeError)"

definition fact :: "host \<Rightarrow> pyval list \<Rightarrow> exc + pyval" where
  "fact h args =
     (case args of
        [n] \<Rightarrow> (case library h BuiltinInt [n] of Inl e \<Rightarrow> Inl e | Inr i \<Rightarrow> library h MathFactorial [i])
      | _ \<Rightarrow> Inl TypeError)"

text \<open>
  \<^verbatim>\<open>math.sqrt\<close>: one argument, read as a float; \<^verbatim>\<open>nan\<close> gives \<^verbatim>\<open>nan\<close>, a negative float
  is a \<^verbatim>\<open>ValueError\<close> (math domain error).
\<close>

definition math_sqrt :: "host \<Rightarrow> pyval list \<Rightarrow> exc + pyval" where
  "math_sqrt h args =
     (case args of
        [x] \<Rightarrow>
          (case py_float x of
             Inl e \<Rightarrow> Inl e
           | Inr d \<Rightarrow>
               if is_nan d then Inr (VFloat d)
               else if negative d then Inl ValueError
               else Inr (VFloat (float_sqrt h d)))
      | _ \<Rightarrow> Inl TypeError)"

text \<open>
  The library functions that take exactly one positional argument (\<^verbatim>\<open>math.log10\<close>,
  \<^verbatim>\<open>abs\<close>, \<^verbatim>\<open>math.floor\<close>, \<^verbatim>\<open>math.ceil\<close>) and those that take one or two (\<^verbatim>\<open>math.log\<close> with
  a base, \<^verbatim>\<open>round\<close> with a number of digits).
\<close>

definition exactly_one :: "host \<Rightarrow> builtin \<Rightarrow> pyval list \<Rightarrow> exc + pyval" where
  "exactly_one h f args = (case args of [x] \<Rightarrow> library h f [x] | _ \<Rightarrow> Inl TypeError)"

definition one_or_two :: "host \<Rightarrow> builtin \<Rightarrow> pyval list \<Rightarrow> exc + pyval" where
  "one_or_two h f args =
     (case args of
        [x] \<Rightarrow> library h f [x]
      | [x, y] \<Rightarrow> library h f [x, y]
      | _ \<Rightarrow> Inl TypeError)"

text \<open>
  \<^verbatim>\<open>sum(iterable, start=0)\<close>: the only iterable among the values is a list. It adds the
  items to \<open>start\<close> from the left; on ints and bools that is exact, and with any other
  item the result is the host's (whose float summation is its own).
\<close>

fun sum_loop :: "host \<Rightarrow> pyval \<Rightarrow> pyval list \<Rightarrow> exc + pyval" where
  "sum_loop h result [] = Inr result"
| "sum_loop h result (item # items) =
     (case arith h Add result item of
        Inl e \<Rightarrow> Inl e
      | Inr r \<Rightarrow> sum_loop h r items)"

definition sum_from :: "host \<Rightarrow> pyval \<Rightarrow> pyval list \<Rightarrow> exc + pyval" where
  "sum_from h start xs =
     (if list_all (\<lambda>v. int_of v \<noteq> None) (start # xs) then sum_loop h start xs
      else library h BuiltinSum [VList xs, start])"

definition builtin_sum :: "host \<Rightarrow> pyval list \<Rightarrow> exc + pyval" where
  "builtin_sum h args =
     (case args of
        [a] \<Rightarrow> (case a of VList xs \<Rightarrow> sum_from h (VInt 0) xs | _ \<Rightarrow> Inl TypeError)
      | [a, start] \<Rightarrow> (case a of VList xs \<Rightarrow> sum_from h start xs | _ \<Rightarrow> Inl TypeError)
      | _ \<Rightarrow> Inl TypeError)"

text \<open>\<^verbatim>\<open>Calculator._get_memory_value\<close>, as a bound method: no argument but \<^verbatim>\<open>self\<close>.\<close>

definition get_memory_value :: "pyval list \<Rightarrow> calculator \<Rightarrow> pyval outcome" where
  "get_memory_value args c =
     (case args of
        [] \<Rightarrow> (Inr (VFloat (memory c)), c)
      | _ \<Rightarrow> (Inl TypeError, c))"

text \<open>
  \<^verbatim>\<open>Calculator._make_names\<close>. \<^verbatim>\<open>math.pi\<close> and \<^verbatim>\<open>math.e\<close> are the floats nearest to the two
  numbers.
\<close>

definition make_names :: "host \<Rightarrow> names" where
  "make_names h = map_of
     [(''pi'', Value (VFloat (Finite (884279719003555 / 281474976710656)))),
      (''e'', Value (VFloat (Finite (6121026514868073 / 2251799813685248)))),
      (''sin'', Function (stateless (of_degrees h MathSin))),
      (''cos'', Function (stateless (of_degrees h MathCos))),
      (''tan'', Function (stateless (of_degrees h MathTan))),
      (''asin'', Function (stateless (to_degrees h MathAsin))),
      (''acos'', Function (stateless (to_degrees h MathAcos))),
      (''atan'', Function (stateless (to_degrees h MathAtan))),
      (''sqrt'', Function (stateless (math_sqrt h))),
      (''log'', Function (stateless (one_or_two h MathLog))),
      (''log10'', Function (stateless (exactly_one h MathLog10))),
      (''abs'', Function (stateless (exactly_one h BuiltinAbs))),
      (''round'', Function (stateless (one_or_two h BuiltinRound))),
      (''floor'', Function (stateless (exactly_one h MathFloor))),
      (''ceil'', Function (stateless (exactly_one h MathCeil))),
      (''fact'', Function (stateless (fact h))),
      (''factorial'', Function (stateless (fact h))),
      (''sum'', Function (stateless (builtin_sum h))),
      (''mem'', Function get_memory_value)]"

text \<open>\<^verbatim>\<open>Calculator.__init__\<close>, \<^verbatim>\<open>store_memory\<close>, \<^verbatim>\<open>recall_memory\<close> and \<^verbatim>\<open>clear_memory\<close>.\<close>

definition init :: calculator where
  "init = \<lparr>memory = Finite 0\<rparr>"

definition store_memory :: "pyval \<Rightarrow> calculator \<Rightarrow> unit outcome" where
  "store_memory v c =
     (case py_float v of
        Inl e \<Rightarrow> (Inl e, c)
      | Inr x \<Rightarrow> (Inr (), c\<lparr>memory := x\<rparr>))"

definition recall_memory :: "calculator \<Rightarrow> pyfloat" where
  "recall_memory c = memory c"

definition clear_memory :: "calculator \<Rightarrow> calculator" where
  "clear_memory c = c\<lparr>memory := Finite 0\<rparr>"

subsection \<open>The preprocessor\<close>

text \<open>
  A character of the text is a code point below 256. \<^verbatim>\<open>str.isalnum\<close> holds of the ASCII
  digits and letters, and in the upper half of the letters, digits and fractions of
  Latin-1.
\<close>

definition isalnum :: "char \<Rightarrow> bool" where
  "isalnum ch =
     (let n = (of_char ch :: nat) in
      (48 \<le> n \<and> n \<le> 57) \<or> (65 \<le> n \<and> n \<le> 90) \<or> (97 \<le> n \<and> n \<le> 122)
      \<or> n = 170 \<or> n = 178 \<or> n = 179 \<or> n = 181 \<or> n = 185 \<or> n = 186
      \<or> (188 \<le> n \<and> n \<le> 190) \<or> (192 \<le> n \<and> n \<le> 214) \<or> (216 \<le> n \<and> n \<le> 246)
      \<or> (248 \<le> n \<and> n \<le> 255))"

text \<open>\<^verbatim>\<open>expr.startswith(prefix, i)\<close> and \<^verbatim>\<open>expression.replace("^", "**")\<close>.\<close>

definition startswith :: "string \<Rightarrow> string \<Rightarrow> nat \<Rightarrow> bool" where
  "startswith expr prefix i = (take (length prefix) (drop i expr) = prefix)"

definition replace_caret :: "string \<Rightarrow> string" where
  "replace_caret expression = concat (map (\<lambda>ch. if ch = CHR ''^'' then ''**'' else [ch]) expression)"

text \<open>
  The loop of \<^verbatim>\<open>Calculator._replace_bare_mem\<close>, with its index \<open>i\<close> and its list \<open>tokens\<close>;
  \<open>expr ! (i + 3)\<close> is read only when \<open>i + 3\<close> is inside the text, \<open>expr ! (i - 1)\<close> only
  when \<open>i\<close> is not 0.
\<close>

function replace_loop :: "string \<Rightarrow> nat \<Rightarrow> string list \<Rightarrow> string list" where
  "replace_loop expr i tokens =
     (if i < length expr then
        (if startswith expr ''mem'' i \<and> (i + 3 = length expr \<or> \<not> isalnum (expr ! (i + 3))) then
           (if i = 0 \<or> \<not> isalnum (expr ! (i - 1))
            then replace_loop expr (i + 3) (tokens @ [''mem()''])
            else replace_loop expr (i + 1) (tokens @ [[expr ! i]]))
         else replace_loop expr (i + 1) (tokens @ [[expr ! i]]))
      else tokens)"
  by pat_completeness auto
termination
  by (relation "measure (\<lambda>(expr, i, tokens). length expr - i)") auto

declare replace_loop.simps [simp del]

definition replace_bare_mem :: "string \<Rightarrow> string" where
  "replace_bare_mem expr = concat (replace_loop expr 0 [])"

subsection \<open>Evaluation of a text\<close>

text \<open>
  \<^verbatim>\<open>Calculator._eval_expression\<close>: the two rewrites, the parser, and the evaluator on the
  session's names. \<^verbatim>\<open>Calculator.evaluate\<close> awaits nothing but a zero sleep before it.
\<close>

definition eval_expression :: "host \<Rightarrow> string \<Rightarrow> calculator \<Rightarrow> pyval outcome" where
  "eval_expression h expression c =
     (let expr = replace_caret expression;
          expr = replace_bare_mem expr
      in case parse h expr of
           SyntaxError e \<Rightarrow> (Inl (SafeEvalError (''Syntax error: '' @ e)), c)
         | ParseRaises e \<Rightarrow> (Inl e, c)
         | Parsed node \<Rightarrow> visit h (make_names h) node c)"

definition evaluate :: "host \<Rightarrow> string \<Rightarrow> calculator \<Rightarrow> pyval outcome" where
  "evaluate h expression c = eval_expression h expression c"

section \<open>Notions used in the statements\<close>

text \<open>
  A dictionary of names is read-only when none of its callables changes the session,
  whatever it is called with.
\<close>

definition read_only :: "names \<Rightarrow> bool" where
  "read_only ns = (\<forall>name f args c. ns name = Some (Function f) \<longrightarrow> snd (f args c) = c)"

text \<open>
  A node that is a literal of a number, with its value; the constants \<^verbatim>\<open>visit_Constant\<close>
  accepts; and the callees \<^verbatim>\<open>visit_Call\<close> accepts.
\<close>

fun numeric_literal :: "node \<Rightarrow> pyval option" where
  "numeric_literal (Constant (CInt i)) = Some (VInt i)"
| "numeric_literal (Constant (CBool b)) = Some (VBool b)"
| "numeric_literal (Constant (CFloat x)) = Some (VFloat x)"
| "numeric_literal n = None"

fun numeric_constant :: "constval \<Rightarrow> bool" where
  "numeric_constant (CInt i) = True"
| "numeric_constant (CBool b) = True"
| "numeric_constant (CFloat x) = True"
| "numeric_constant v = False"

fun is_Name :: "node \<Rightarrow> bool" where
  "is_Name (Name ident) = True"
| "is_Name n = False"

text \<open>
  A divisor that is zero: \<^verbatim>\<open>0\<close>, \<^verbatim>\<open>False\<close>, \<^verbatim>\<open>0.0\<close> or \<^verbatim>\<open>-0.0\<close>; and the three operators
  that divide.
\<close>

fun zero_number :: "pyval \<Rightarrow> bool" where
  "zero_number (VInt i) = (i = 0)"
| "zero_number (VBool b) = (\<not> b)"
| "zero_number (VFloat y) = is_zero y"
| "zero_number (VComplex re im) = False"
| "zero_number (VList xs) = False"

definition division_like :: "operator \<Rightarrow> bool" where
  "division_like op = (op = Div \<or> op = FloorDiv \<or> op = Mod)"

text \<open>
  How many positional arguments each callable of \<^verbatim>\<open>_make_names\<close> accepts, least and
  most: the lambdas by their parameter list, the bound method \<^verbatim>\<open>mem\<close> by its own, and the
  library functions by their signatures (\<^verbatim>\<open>math.log(x[, base])\<close>,
  \<^verbatim>\<open>round(number, ndigits=None)\<close>, \<^verbatim>\<open>sum(iterable, /, start=0)\<close>).
\<close>

definition positional_arity :: "(string \<times> nat \<times> nat) list" where
  "positional_arity =
     [(''sin'', 1, 1), (''cos'', 1, 1), (''tan'', 1, 1),
      (''asin'', 1, 1), (''acos'', 1, 1), (''atan'', 1, 1),
      (''sqrt'', 1, 1), (''log'', 1, 2), (''log10'', 1, 1),
      (''abs'', 1, 1), (''round'', 1, 2), (''floor'', 1, 1), (''ceil'', 1, 1),
      (''fact'', 1, 1), (''factorial'', 1, 1), (''sum'', 1, 2), (''mem'', 0, 0)]"

text \<open>
  The reference evaluator the specification describes (4.3), on trees of number literals,
  names and operators. A number literal is its value; a name is the value of the numeric
  constant it is bound to, and \<open>UnknownName\<close> when it is bound to nothing or to a
  function; a binary operation evaluates its left operand, then its right one, and applies
  the function of the operator to the two numbers, where a zero divisor is
  \<open>DivisionByZero\<close> and a negative base with a fractional exponent is \<open>DomainError\<close>; a
  unary operation is the negation or the identity. Anything else is \<open>Unsupported\<close>. The
  numbers are those of the host: ints are exact, floats are rounded as the host rounds
  them.
\<close>

datatype eval_error = DivisionByZero | DomainError | Overflow | UnknownName | Unsupported















text \<open>
  The parser. \<open>grammar\<close> is the grammar itself, one case for each rule and one for each
  repetition (which carries the operand read so far), with \<open>p\<close> standing for the rules on
  the right-hand sides; \<open>parse_rule\<close> unfolds it a bounded number of times. \<open>parse_tokens\<close>
  gives six unfoldings for each token and asks that all tokens are read.
\<close>

datatype rule = Sum | SumRest node | Term | TermRest node | Factor | Power | Atom








section \<open>Properties of the evaluator\<close>

subsection \<open>The session is only read\<close>

lemma read_onlyD: "read_only ns \<Longrightarrow> ns name = Some (Function f) \<Longrightarrow> snd (f args c) = c"
  unfolding read_only_def by blast

lemma visit_frame:
  "read_only ns \<Longrightarrow> snd (visit h ns n c) = c"
  "read_only ns \<Longrightarrow> snd (visit_all h ns xs c) = c"
proof (induction h ns n c and h ns xs c rule: visit_visit_all.induct)
  case (1 h ns body c)
  then show ?case by simp
next
  case (2 h ns l op r c)
  then show ?case
    by (auto split: prod.splits sum.splits option.splits)
next
  case (3 h ns op x c)
  then show ?case
    by (auto split: prod.splits sum.splits option.splits)
next
  case (4 h ns func args kws c)
  show ?case
  proof (cases func)
    case (Name func_name)
    show ?thesis
    proof (cases "ns func_name")
      case None
      with Name show ?thesis by simp
    next
      case (Some en)
      show ?thesis
      proof (cases en)
        case (Value v)
        with Name Some show ?thesis by simp
      next
        case (Function f)
        have args: "snd (visit_all h ns args c) = c"
          using "4.IH" "4.prems" Name Some Function by simp
        obtain r c1 where r: "visit_all h ns args c = (r, c1)"
          by (cases "visit_all h ns args c")
        with args have c1: "c1 = c" by simp
        show ?thesis
        proof (cases r)
          case (Inl e)
          with Name Some Function r c1 show ?thesis by simp
        next
          case (Inr vs)
          have "snd (f vs c) = c"
            using "4.prems" Some Function by (simp add: read_onlyD)
          with Name Some Function r c1 Inr show ?thesis by simp
        qed
      qed
    qed
  qed simp_all
next
  case (5 h ns n c)
  then show ?case by simp
next
  case (6 h ns v c)
  then show ?case by (simp split: constval.splits)
next
  case (7 h ns ident c)
  then show ?case by (simp split: option.splits entry.splits)
next
  case (8 h ns elts c)
  then show ?case by (auto split: prod.splits sum.splits)
next
  case (9 h ns cls c)
  then show ?case by simp
next
  case (10 h ns c)
  then show ?case by simp
next
  case (11 h ns x xs c)
  then show ?case by (auto split: prod.splits sum.splits)
qed

text \<open>
  Every callable of \<^verbatim>\<open>_make_names\<close> leaves the session as it was: the library functions
  do not see it, and \<^verbatim>\<open>mem\<close> reads the memory.
\<close>

lemma make_names_read_only: "read_only (make_names h)"
  unfolding read_only_def
  by (auto simp: make_names_def stateless_def get_memory_value_def split: if_splits list.splits)

lemma eval_expression_frame: "snd (eval_expression h expression c) = c"
  by (simp add: eval_expression_def Let_def visit_frame(1) make_names_read_only
      split: parsed.splits)

text \<open>
  C9. For every text and every session, on every host: \<^verbatim>\<open>evaluate\<close> returns the session
  it was given, with the memory cell unchanged, whether it returns a value or raises; and
  evaluating the same text again, in the session the first evaluation left, gives the same
  outcome as the first.
\<close>

theorem evaluate_leaves_memory_unchanged:
  "snd (evaluate h expression c) = c
   \<and> memory (snd (evaluate h expression c)) = memory c
   \<and> evaluate h expression (snd (evaluate h expression c)) = evaluate h expression c"
  by (simp add: evaluate_def eval_expression_frame)

subsection \<open>Keyword arguments\<close>


text \<open>
  \<^verbatim>\<open>round(2.5, ndigits=1)\<close> is \<^verbatim>\<open>round(2.5)\<close>, also when the keyword's value is something
  the evaluator would refuse.
\<close>

lemma round_with_keyword:
  "visit h (make_names h)
     (Call (Name ''round'') [Constant (CFloat (Finite (5 / 2)))] [(Some ''ndigits'', Other ''Lambda'')]) c
   = (library h BuiltinRound [VFloat (Finite (5 / 2))], c)"
  by (simp add: make_names_def stateless_def one_or_two_def)

subsection \<open>Nodes outside the allow-list\<close>

text \<open>
  C1, as the code has it. A node of a class without a visitor, a call whose callee is not
  a simple name, and a constant that is not an int, a bool or a float raise
  \<^verbatim>\<open>SafeEvalError\<close> at once, nothing of the node being evaluated. A \<^verbatim>\<open>BinOp\<close> or a
  \<^verbatim>\<open>UnaryOp\<close> whose operator is not in \<^verbatim>\<open>ALLOWED_OPERATORS\<close> raises \<^verbatim>\<open>SafeEvalError\<close> only
  after its operands were evaluated without an exception; an exception of the first
  operand is what the node raises instead.
\<close>

theorem unsupported_nodes_are_refused:
  "visit h ns (Other cls) c = (Inl (SafeEvalError (''Unsupported expression: '' @ cls)), c)
   \<and> (\<not> is_Name func \<longrightarrow>
        visit h ns (Call func args kws) c
          = (Inl (SafeEvalError ''Only direct function calls allowed (no attributes).''), c))
   \<and> (\<not> numeric_constant v \<longrightarrow>
        visit h ns (Constant v) c
          = (Inl (SafeEvalError (''Constants of type '' @ type_name v @ '' not allowed'')), c))
   \<and> (ALLOWED_OPERATORS h op = None \<and> visit h ns l c = (Inr a, c1) \<and> visit h ns r c1 = (Inr b, c2) \<longrightarrow>
        visit h ns (BinOp l op r) c
          = (Inl (SafeEvalError (''Operator not allowed: '' @ op_name op)), c2))
   \<and> (ALLOWED_OPERATORS h op = None \<and> visit h ns l c = (Inr a, c1) \<longrightarrow>
        visit h ns (UnaryOp op l) c
          = (Inl (SafeEvalError (''Unary operator not allowed: '' @ op_name op)), c1))
   \<and> (visit h ns l c = (Inl e, c1) \<longrightarrow>
        visit h ns (BinOp l op r) c = (Inl e, c1) \<and> visit h ns (UnaryOp op l) c = (Inl e, c1))"
proof -
  have call: "\<not> is_Name func \<Longrightarrow>
        visit h ns (Call func args kws) c
          = (Inl (SafeEvalError ''Only direct function calls allowed (no attributes).''), c)"
    by (cases func) simp_all
  have const: "\<not> numeric_constant v \<Longrightarrow>
        visit h ns (Constant v) c
          = (Inl (SafeEvalError (''Constants of type '' @ type_name v @ '' not allowed'')), c)"
    by (cases v) simp_all
  from call const show ?thesis by simp
qed

text \<open>
  The theorem at \<^verbatim>\<open>a < b\<close> (a \<^verbatim>\<open>Compare\<close>), \<^verbatim>\<open>x.y()\<close>, \<^verbatim>\<open>"abc"\<close>, \<^verbatim>\<open>6 ^ 3\<close> as the parser
  reads it without the rewrite (\<^verbatim>\<open>BitXor\<close>), \<^verbatim>\<open>~6\<close>, \<^verbatim>\<open>(a < b) | 3\<close> and \<^verbatim>\<open>~(a < b)\<close>.
\<close>

theorem unsupported_nodes_are_refused_witness:
  "\<forall>h ns c.
     visit h ns (Other ''Compare'') c = (Inl (SafeEvalError ''Unsupported expression: Compare''), c)
   \<and> \<not> is_Name (Other ''Attribute'')
   \<and> visit h ns (Call (Other ''Attribute'') [] []) c
       = (Inl (SafeEvalError ''Only direct function calls allowed (no attributes).''), c)
   \<and> \<not> numeric_constant (CStr ''abc'')
   \<and> visit h ns (Constant (CStr ''abc'')) c
       = (Inl (SafeEvalError ''Constants of type str not allowed''), c)
   \<and> ALLOWED_OPERATORS h BitXor = None
   \<and> visit h ns (Constant (CInt 6)) c = (Inr (VInt 6), c)
   \<and> visit h ns (Constant (CInt 3)) c = (Inr (VInt 3), c)
   \<and> visit h ns (BinOp (Constant (CInt 6)) BitXor (Constant (CInt 3))) c
       = (Inl (SafeEvalError ''Operator not allowed: BitXor''), c)
   \<and> ALLOWED_OPERATORS h Invert = None
   \<and> visit h ns (UnaryOp Invert (Constant (CInt 6))) c
       = (Inl (SafeEvalError ''Unary operator not allowed: Invert''), c)
   \<and> visit h ns (BinOp (Other ''Compare'') BitOr (Constant (CInt 3))) c
       = (Inl (SafeEvalError ''Unsupported expression: Compare''), c)
   \<and> visit h ns (UnaryOp Invert (Other ''Compare'')) c
       = (Inl (SafeEvalError ''Unsupported expression: Compare''), c)"
proof (intro allI)
  fix h ns c
  have six: "visit h ns (Constant (CInt 6)) c = (Inr (VInt 6), c)" by simp
  have three: "visit h ns (Constant (CInt 3)) c = (Inr (VInt 3), c)" by simp
  have x: "ALLOWED_OPERATORS h BitXor = None" by simp
  have n: "\<not> is_Name (Other ''Attribute'')" by simp
  have k: "\<not> numeric_constant (CStr ''abc'')" by simp
  have cmp: "visit h ns (Other ''Compare'') c
       = (Inl (SafeEvalError ''Unsupported expression: Compare''), c)" by simp
  note first = unsupported_nodes_are_refused
      [where h = h and ns = ns and c = c and cls = "''Compare''" and func = "Other ''Attribute''"
        and args = "[]" and kws = "[]" and v = "CStr ''abc''" and op = BitXor
        and l = "Constant (CInt 6)" and a = "VInt 6" and ?c1.0 = c
        and r = "Constant (CInt 3)" and b = "VInt 3" and ?c2.0 = c]
  note second = unsupported_nodes_are_refused
      [where h = h and ns = ns and c = c and op = BitOr and l = "Other ''Compare''"
        and e = "SafeEvalError ''Unsupported expression: Compare''" and ?c1.0 = c
        and r = "Constant (CInt 3)"]
  note third = unsupported_nodes_are_refused
      [where h = h and ns = ns and c = c and op = Invert and l = "Constant (CInt 6)"
        and a = "VInt 6" and ?c1.0 = c]
  note fourth = unsupported_nodes_are_refused
      [where h = h and ns = ns and c = c and op = Invert and l = "Other ''Compare''"
        and e = "SafeEvalError ''Unsupported expression: Compare''" and ?c1.0 = c]
  have y: "ALLOWED_OPERATORS h Invert = None" by simp
  from first second third fourth six three x y n k cmp
  show "visit h ns (Other ''Compare'') c = (Inl (SafeEvalError ''Unsupported expression: Compare''), c)
   \<and> \<not> is_Name (Other ''Attribute'')
   \<and> visit h ns (Call (Other ''Attribute'') [] []) c
       = (Inl (SafeEvalError ''Only direct function calls allowed (no attributes).''), c)
   \<and> \<not> numeric_constant (CStr ''abc'')
   \<and> visit h ns (Constant (CStr ''abc'')) c
       = (Inl (SafeEvalError ''Constants of type str not allowed''), c)
   \<and> ALLOWED_OPERATORS h BitXor = None
   \<and> visit h ns (Constant (CInt 6)) c = (Inr (VInt 6), c)
   \<and> visit h ns (Constant (CInt 3)) c = (Inr (VInt 3), c)
   \<and> visit h ns (BinOp (Constant (CInt 6)) BitXor (Constant (CInt 3))) c
       = (Inl (SafeEvalError ''Operator not allowed: BitXor''), c)
   \<and> ALLOWED_OPERATORS h Invert = None
   \<and> visit h ns (UnaryOp Invert (Constant (CInt 6))) c
       = (Inl (SafeEvalError ''Unary operator not allowed: Invert''), c)
   \<and> visit h ns (BinOp (Other ''Compare'') BitOr (Constant (CInt 3))) c
       = (Inl (SafeEvalError ''Unsupported expression: Compare''), c)
   \<and> visit h ns (UnaryOp Invert (Other ''Compare'')) c
       = (Inl (SafeEvalError ''Unsupported expression: Compare''), c)"
    by simp
qed

text \<open>
  C1 as the claim states it fails at \<^verbatim>\<open>(1/0) | 2\<close>: a \<^verbatim>\<open>BinOp\<close> whose operator \<^verbatim>\<open>BitOr\<close> is
  outside the allow-list. Its left operand is evaluated first and the node raises
  \<^verbatim>\<open>ZeroDivisionError\<close>, which is not a \<^verbatim>\<open>SafeEvalError\<close>.
\<close>

theorem disallowed_operator_counterexample:
  "\<forall>h ns c.
     ALLOWED_OPERATORS h BitOr = None
     \<and> visit h ns (BinOp (BinOp (Constant (CInt 1)) Div (Constant (CInt 0))) BitOr (Constant (CInt 2))) c
       = (Inl ZeroDivisionError, c)
     \<and> \<not> is_SafeEvalError (fst (visit h ns
           (BinOp (BinOp (Constant (CInt 1)) Div (Constant (CInt 0))) BitOr (Constant (CInt 2))) c))"
  by (simp add: binary_def arith_def)

subsection \<open>Names\<close>

text \<open>
  C7, as the code has it. Every failure to resolve a name is a \<^verbatim>\<open>SafeEvalError\<close>, never
  a value: a bare name that is absent says \<^verbatim>\<open>Name not allowed\<close>; a bare name bound to a
  callable says it is not a numeric constant; and a call of a name that is absent or
  bound to something that is not callable says \<^verbatim>\<open>Function not allowed\<close>, the same in both
  cases and before any argument is evaluated.
\<close>

theorem name_resolution_errors:
  "(ns x = None \<longrightarrow>
      visit h ns (Name x) c = (Inl (SafeEvalError (''Name not allowed: '' @ x)), c))
   \<and> ((\<exists>f. ns x = Some (Function f)) \<longrightarrow>
      visit h ns (Name x) c
        = (Inl (SafeEvalError (''Name '' @ [CHR 0x27] @ x @ [CHR 0x27] @ '' is not a numeric constant'')), c))
   \<and> (ns x = None \<or> (\<exists>v. ns x = Some (Value v)) \<longrightarrow>
      visit h ns (Call (Name x) args kws) c
        = (Inl (SafeEvalError (''Function not allowed: '' @ x)), c))"
  by auto

theorem name_resolution_errors_witness:
  "\<forall>h c.
     make_names h ''tau'' = None
     \<and> visit h (make_names h) (Name ''tau'') c = (Inl (SafeEvalError ''Name not allowed: tau''), c)
     \<and> visit h (make_names h) (Call (Name ''tau'') [Constant (CInt 1)] []) c
         = (Inl (SafeEvalError ''Function not allowed: tau''), c)
     \<and> (\<exists>f. make_names h ''sin'' = Some (Function f))
     \<and> visit h (make_names h) (Name ''sin'') c
         = (Inl (SafeEvalError (''Name '' @ [CHR 0x27] @ ''sin'' @ [CHR 0x27] @ '' is not a numeric constant'')), c)
     \<and> (\<exists>v. make_names h ''pi'' = Some (Value v))
     \<and> visit h (make_names h) (Call (Name ''pi'') [Constant (CInt 1)] []) c
         = (Inl (SafeEvalError ''Function not allowed: pi''), c)"
proof (intro allI)
  fix h c
  have tau: "make_names h ''tau'' = None" by (simp add: make_names_def)
  have sin: "\<exists>f. make_names h ''sin'' = Some (Function f)" by (simp add: make_names_def)
  have pi: "\<exists>v. make_names h ''pi'' = Some (Value v)" by (simp add: make_names_def)
  from tau sin pi
    name_resolution_errors [of "make_names h" "''tau''" h c "[Constant (CInt 1)]" "[]"]
    name_resolution_errors [of "make_names h" "''sin''" h c "[]" "[]"]
    name_resolution_errors [of "make_names h" "''pi''" h c "[Constant (CInt 1)]" "[]"]
  show "make_names h ''tau'' = None
     \<and> visit h (make_names h) (Name ''tau'') c = (Inl (SafeEvalError ''Name not allowed: tau''), c)
     \<and> visit h (make_names h) (Call (Name ''tau'') [Constant (CInt 1)] []) c
         = (Inl (SafeEvalError ''Function not allowed: tau''), c)
     \<and> (\<exists>f. make_names h ''sin'' = Some (Function f))
     \<and> visit h (make_names h) (Name ''sin'') c
         = (Inl (SafeEvalError (''Name '' @ [CHR 0x27] @ ''sin'' @ [CHR 0x27] @ '' is not a numeric constant'')), c)
     \<and> (\<exists>v. make_names h ''pi'' = Some (Value v))
     \<and> visit h (make_names h) (Call (Name ''pi'') [Constant (CInt 1)] []) c
         = (Inl (SafeEvalError ''Function not allowed: pi''), c)"
    by simp
qed

text \<open>
  C7 as the claim states it fails at \<^verbatim>\<open>pi(1)\<close>: the constant in call position raises the
  error an unknown function raises, with the same message but for the name, and it raises
  exactly what it would raise were \<^verbatim>\<open>pi\<close> not in the dictionary at all.
\<close>

theorem not_callable_counterexample:
  "\<forall>h c.
     visit h (make_names h) (Call (Name ''pi'') [Constant (CInt 1)] []) c
       = (Inl (SafeEvalError ''Function not allowed: pi''), c)
     \<and> visit h (make_names h) (Call (Name ''tau'') [Constant (CInt 1)] []) c
       = (Inl (SafeEvalError ''Function not allowed: tau''), c)
     \<and> visit h ((make_names h)(''pi'' := None)) (Call (Name ''pi'') [Constant (CInt 1)] []) c
       = visit h (make_names h) (Call (Name ''pi'') [Constant (CInt 1)] []) c"
  by (simp add: make_names_def)

subsection \<open>A list as the whole expression\<close>

lemma numeric_literal_visit: "numeric_literal n = Some v \<Longrightarrow> visit h ns n c = (Inr v, c)"
  by (cases n rule: numeric_literal.cases) simp_all

lemma visit_all_literals:
  "map numeric_literal elts = map Some vs \<Longrightarrow> visit_all h ns elts c = (Inr vs, c)"
proof (induction elts arbitrary: vs)
  case Nil
  then show ?case by simp
next
  case (Cons n elts)
  then obtain v vs' where vs: "vs = v # vs'" and n: "numeric_literal n = Some v"
    and rest: "map numeric_literal elts = map Some vs'"
    by (cases vs) auto
  from Cons.IH [OF rest] numeric_literal_visit [OF n] vs show ?case by simp
qed

text \<open>
  C8, as the code has it. An expression that is a list of number literals evaluates to
  the list of their values: \<^verbatim>\<open>visit_Expression\<close> returns what \<^verbatim>\<open>visit_List\<close> returns, and
  no error is raised.
\<close>

theorem top_level_list_is_returned:
  "map numeric_literal elts = map Some vs \<Longrightarrow>
   visit h ns (Expression (List elts)) c = (Inr (VList vs), c)"
  by (simp add: visit_all_literals)

theorem top_level_list_is_returned_witness:
  "\<forall>h ns c.
     map numeric_literal [Constant (CInt 1), Constant (CFloat (Finite (5 / 2)))]
       = map Some [VInt 1, VFloat (Finite (5 / 2))]
     \<and> visit h ns (Expression (List [Constant (CInt 1), Constant (CFloat (Finite (5 / 2)))])) c
       = (Inr (VList [VInt 1, VFloat (Finite (5 / 2))]), c)"
proof (intro allI)
  fix h ns c
  have m: "map numeric_literal [Constant (CInt 1), Constant (CFloat (Finite (5 / 2)))]
       = map Some [VInt 1, VFloat (Finite (5 / 2))]" by simp
  from m top_level_list_is_returned [OF m, of h ns c]
  show "map numeric_literal [Constant (CInt 1), Constant (CFloat (Finite (5 / 2)))]
       = map Some [VInt 1, VFloat (Finite (5 / 2))]
     \<and> visit h ns (Expression (List [Constant (CInt 1), Constant (CFloat (Finite (5 / 2)))])) c
       = (Inr (VList [VInt 1, VFloat (Finite (5 / 2))]), c)" by blast
qed

text \<open>
  C8 as the claim states it fails at \<^verbatim>\<open>[1,2,3]\<close>: the tree of that text evaluates to the
  list, not to an error.
\<close>

theorem list_literal_counterexample:
  "\<forall>h c. visit h (make_names h)
       (Expression (List [Constant (CInt 1), Constant (CInt 2), Constant (CInt 3)])) c
     = (Inr (VList [VInt 1, VInt 2, VInt 3]), c)"
  by simp

subsection \<open>Division by zero\<close>

lemma py_float_zero:
  "zero_number r \<Longrightarrow> is_int_or_float r \<Longrightarrow> \<exists>y. py_float r = Inr y \<and> is_zero y"
  by (cases r) (auto simp: int_to_float_def)

lemma zero_division_arith:
  assumes op: "division_like op" and r: "zero_number r" and l: "is_int_or_float l"
    and conv: "int_of r \<noteq> None \<or> py_float l \<noteq> Inl OverflowError"
  shows "arith h op l r = Inl ZeroDivisionError"
proof -
  from r have rnum: "is_int_or_float r" by (cases r) simp_all
  from py_float_zero [OF r rnum] obtain y where y: "py_float r = Inr y" "is_zero y" by blast
  show ?thesis
  proof (cases "int_of l")
    case None
    with l obtain x where lx: "l = VFloat x" by (cases l) simp_all
    with y op r show ?thesis
      by (cases r) (auto simp: arith_def division_like_def)
  next
    case (Some i)
    show ?thesis
    proof (cases "int_of r")
      case None
      with r obtain z where rz: "r = VFloat z" by (cases r) simp_all
      from None conv have "py_float l \<noteq> Inl OverflowError" by simp
      with Some obtain x where "py_float l = Inr x"
        by (cases l) (auto split: option.splits)
      with rz y op Some show ?thesis
        by (cases l) (auto simp: arith_def division_like_def)
    next
      case (Some j)
      with r have "j = 0" by (cases r) auto
      with Some \<open>int_of l = Some i\<close> op l r show ?thesis
        by (cases l; cases r) (auto simp: arith_def division_like_def)
    qed
  qed
qed

text \<open>
  C3, as the code has it. When the left operand evaluates to an int, a bool or a float
  and the right one to a zero (\<^verbatim>\<open>0\<close>, \<^verbatim>\<open>False\<close>, \<^verbatim>\<open>0.0\<close>, \<^verbatim>\<open>-0.0\<close>), the operators \<^verbatim>\<open>/\<close>,
  \<^verbatim>\<open>//\<close> and \<^verbatim>\<open>%\<close> raise Python's own \<^verbatim>\<open>ZeroDivisionError\<close>, which the evaluator neither
  catches nor turns into an error of its own. With a float divisor the left operand is
  converted first, so an int too large for a float is excluded: its \<^verbatim>\<open>OverflowError\<close>
  comes before the test of the divisor.
\<close>

theorem division_by_zero_raises:
  assumes "division_like op" and "zero_number r" and "is_int_or_float l"
    and "int_of r \<noteq> None \<or> py_float l \<noteq> Inl OverflowError"
    and "visit h ns a c = (Inr l, c1)" and "visit h ns b c1 = (Inr r, c2)"
  shows "visit h ns (BinOp a op b) c = (Inl ZeroDivisionError, c2)"
proof -
  from assms(1) have f: "ALLOWED_OPERATORS h op = Some (binary (arith h op))"
    by (auto simp: division_like_def)
  from zero_division_arith [OF assms(1-4)]
  have "binary (arith h op) [l, r] = Inl ZeroDivisionError"
    by (simp add: binary_def)
  with f assms(5,6) show ?thesis by simp
qed

text \<open>The theorem at \<^verbatim>\<open>1/0\<close> and at \<^verbatim>\<open>2.5 % -0.0\<close>.\<close>

theorem division_by_zero_raises_witness:
  "\<forall>h ns c.
     division_like Div \<and> zero_number (VInt 0) \<and> is_int_or_float (VInt 1)
     \<and> int_of (VInt 0) \<noteq> None
     \<and> visit h ns (Constant (CInt 1)) c = (Inr (VInt 1), c)
     \<and> visit h ns (Constant (CInt 0)) c = (Inr (VInt 0), c)
     \<and> visit h ns (BinOp (Constant (CInt 1)) Div (Constant (CInt 0))) c = (Inl ZeroDivisionError, c)
     \<and> division_like Mod \<and> zero_number (VFloat NegZero) \<and> is_int_or_float (VFloat (Finite (5 / 2)))
     \<and> py_float (VFloat (Finite (5 / 2))) \<noteq> Inl OverflowError
     \<and> visit h ns (Constant (CFloat (Finite (5 / 2)))) c = (Inr (VFloat (Finite (5 / 2))), c)
     \<and> visit h ns (UnaryOp USub (Constant (CFloat (Finite 0)))) c = (Inr (VFloat NegZero), c)
     \<and> visit h ns (BinOp (Constant (CFloat (Finite (5 / 2)))) Mod
                           (UnaryOp USub (Constant (CFloat (Finite 0))))) c
         = (Inl ZeroDivisionError, c)"
proof (intro allI)
  fix h ns c
  have d: "division_like Div" "division_like Mod" by (simp_all add: division_like_def)
  have z: "zero_number (VInt 0)" "zero_number (VFloat NegZero)" by simp_all
  have n: "is_int_or_float (VInt 1)" "is_int_or_float (VFloat (Finite (5 / 2)))" by simp_all
  have k1: "int_of (VInt 0) \<noteq> None \<or> py_float (VInt 1) \<noteq> Inl OverflowError" by simp
  have k2: "int_of (VFloat NegZero) \<noteq> None
            \<or> py_float (VFloat (Finite (5 / 2))) \<noteq> Inl OverflowError" by simp
  have v1: "visit h ns (Constant (CInt 1)) c = (Inr (VInt 1), c)" by simp
  have v0: "visit h ns (Constant (CInt 0)) c = (Inr (VInt 0), c)" by simp
  have vx: "visit h ns (Constant (CFloat (Finite (5 / 2)))) c = (Inr (VFloat (Finite (5 / 2))), c)"
    by simp
  have vz: "visit h ns (UnaryOp USub (Constant (CFloat (Finite 0)))) c = (Inr (VFloat NegZero), c)"
    by (simp add: unary_def)
  from d z n v1 v0 vx vz
    division_by_zero_raises [OF d(1) z(1) n(1) k1 v1 v0]
    division_by_zero_raises [OF d(2) z(2) n(2) k2 vx vz]
  show "division_like Div \<and> zero_number (VInt 0) \<and> is_int_or_float (VInt 1)
     \<and> int_of (VInt 0) \<noteq> None
     \<and> visit h ns (Constant (CInt 1)) c = (Inr (VInt 1), c)
     \<and> visit h ns (Constant (CInt 0)) c = (Inr (VInt 0), c)
     \<and> visit h ns (BinOp (Constant (CInt 1)) Div (Constant (CInt 0))) c = (Inl ZeroDivisionError, c)
     \<and> division_like Mod \<and> zero_number (VFloat NegZero) \<and> is_int_or_float (VFloat (Finite (5 / 2)))
     \<and> py_float (VFloat (Finite (5 / 2))) \<noteq> Inl OverflowError
     \<and> visit h ns (Constant (CFloat (Finite (5 / 2)))) c = (Inr (VFloat (Finite (5 / 2))), c)
     \<and> visit h ns (UnaryOp USub (Constant (CFloat (Finite 0)))) c = (Inr (VFloat NegZero), c)
     \<and> visit h ns (BinOp (Constant (CFloat (Finite (5 / 2)))) Mod
                           (UnaryOp USub (Constant (CFloat (Finite 0))))) c
         = (Inl ZeroDivisionError, c)"
    by simp
qed

text \<open>
  C3 as the claim states it fails: with the list \<^verbatim>\<open>[1]\<close> as left operand, \<^verbatim>\<open>[1] % 0\<close> raises
  \<^verbatim>\<open>TypeError\<close>; and what \<^verbatim>\<open>1/0\<close> raises is the exception of the platform,
  \<^verbatim>\<open>ZeroDivisionError\<close>, propagated as it is, not a \<^verbatim>\<open>SafeEvalError\<close>.
\<close>

theorem zero_division_counterexample:
  "\<forall>h ns c.
     zero_number (VInt 0)
     \<and> visit h ns (BinOp (List [Constant (CInt 1)]) Mod (Constant (CInt 0))) c = (Inl TypeError, c)
     \<and> visit h ns (BinOp (Constant (CInt 1)) Div (Constant (CInt 0))) c = (Inl ZeroDivisionError, c)
     \<and> \<not> is_SafeEvalError (fst (visit h ns (BinOp (Constant (CInt 1)) Div (Constant (CInt 0))) c))"
  by (simp add: binary_def arith_def list_binop_def)

subsection \<open>Results that are not real\<close>

lemma int_to_float_integral: "int_to_float j = Some y \<Longrightarrow> is_integral y"
  by (auto simp: int_to_float_def Let_def split: if_splits)

lemma py_float_int_integral: "int_of r = Some j \<Longrightarrow> py_float r = Inr y \<Longrightarrow> is_integral y"
  by (cases r) (auto dest: int_to_float_integral split: option.splits)

lemma fractional_power_arith:
  assumes x: "py_float l = Inr x" and y: "py_float r = Inr y"
    and fin: "is_finite x" "is_finite y" and neg: "negative x" and frac: "\<not> is_integral y"
  shows "arith h Pow_op l r =
     (case complex_power h x y of
        None \<Rightarrow> Inl OverflowError
      | Some z \<Rightarrow> Inr (VComplex (fst z) (snd z)))"
proof -
  from frac have ynz: "\<not> is_zero y" by (cases y) auto
  from neg have xnz: "\<not> is_zero x" by (cases x) auto
  from y frac have rint: "int_of r = None"
    by (cases "int_of r") (auto dest: py_float_int_integral)
  from x have l: "\<not> is_list l" "\<not> is_complex l" by (cases l; simp)+
  from y have r: "\<not> is_list r" "\<not> is_complex r" by (cases r; simp)+
  from l r rint x y ynz xnz fin neg frac show ?thesis
    by (simp add: arith_def float_pow_def split: option.splits)
qed

lemma floor_half: "\<lfloor>1 / 2 :: rat\<rfloor> = 0"
  by (simp add: floor_eq_iff)

text \<open>
  C4, as the code has it. \<^verbatim>\<open>sqrt\<close> of an argument that reads as a negative float raises
  Python's \<^verbatim>\<open>ValueError\<close> (math domain error). The power operator with a finite negative
  base and a finite exponent that is not integral raises no domain error: the result is
  the complex number the host's complex power computes, or \<^verbatim>\<open>OverflowError\<close> when that
  overflows.
\<close>

theorem undefined_results:
  "(visit_all h (make_names h) args c = (Inr [v], c1) \<and> py_float v = Inr d \<and> negative d \<longrightarrow>
      visit h (make_names h) (Call (Name ''sqrt'') args kws) c = (Inl ValueError, c1))
   \<and> (visit h ns a c = (Inr l, c1) \<and> visit h ns b c1 = (Inr r, c2)
        \<and> py_float l = Inr x \<and> py_float r = Inr y
        \<and> is_finite x \<and> is_finite y \<and> negative x \<and> \<not> is_integral y \<longrightarrow>
      visit h ns (BinOp a Pow_op b) c =
        (case complex_power h x y of
           None \<Rightarrow> Inl OverflowError
         | Some z \<Rightarrow> Inr (VComplex (fst z) (snd z)), c2))"
proof (intro conjI impI)
  assume "visit_all h (make_names h) args c = (Inr [v], c1) \<and> py_float v = Inr d \<and> negative d"
  moreover from this have "\<not> is_nan d" by (cases d) auto
  ultimately show "visit h (make_names h) (Call (Name ''sqrt'') args kws) c = (Inl ValueError, c1)"
    by (simp add: make_names_def stateless_def math_sqrt_def)
next
  assume a: "visit h ns a c = (Inr l, c1) \<and> visit h ns b c1 = (Inr r, c2)
        \<and> py_float l = Inr x \<and> py_float r = Inr y
        \<and> is_finite x \<and> is_finite y \<and> negative x \<and> \<not> is_integral y"
  then have "arith h Pow_op l r =
     (case complex_power h x y of
        None \<Rightarrow> Inl OverflowError
      | Some z \<Rightarrow> Inr (VComplex (fst z) (snd z)))"
    by (intro fractional_power_arith) simp_all
  with a show "visit h ns (BinOp a Pow_op b) c =
        (case complex_power h x y of
           None \<Rightarrow> Inl OverflowError
         | Some z \<Rightarrow> Inr (VComplex (fst z) (snd z)), c2)"
    by (simp add: binary_def)
qed

text \<open>The theorem at \<^verbatim>\<open>sqrt(-1)\<close> and at \<^verbatim>\<open>(-8) ** 0.5\<close>.\<close>

theorem undefined_results_witness:
  "\<forall>h c.
     visit_all h (make_names h) [UnaryOp USub (Constant (CInt 1))] c = (Inr [VInt (- 1)], c)
     \<and> py_float (VInt (- 1)) = Inr (Finite (- 1)) \<and> negative (Finite (- 1))
     \<and> visit h (make_names h) (Call (Name ''sqrt'') [UnaryOp USub (Constant (CInt 1))] []) c
         = (Inl ValueError, c)
     \<and> visit h (make_names h) (UnaryOp USub (Constant (CInt 8))) c = (Inr (VInt (- 8)), c)
     \<and> visit h (make_names h) (Constant (CFloat (Finite (1 / 2)))) c = (Inr (VFloat (Finite (1 / 2))), c)
     \<and> py_float (VInt (- 8)) = Inr (Finite (- 8))
     \<and> py_float (VFloat (Finite (1 / 2))) = Inr (Finite (1 / 2))
     \<and> is_finite (Finite (- 8)) \<and> is_finite (Finite (1 / 2)) \<and> negative (Finite (- 8))
     \<and> \<not> is_integral (Finite (1 / 2))
     \<and> visit h (make_names h)
           (BinOp (UnaryOp USub (Constant (CInt 8))) Pow_op (Constant (CFloat (Finite (1 / 2))))) c
         = (case complex_power h (Finite (- 8)) (Finite (1 / 2)) of
              None \<Rightarrow> Inl OverflowError
            | Some z \<Rightarrow> Inr (VComplex (fst z) (snd z)), c)"
proof (intro allI)
  fix h c
  have s1: "visit_all h (make_names h) [UnaryOp USub (Constant (CInt 1))] c = (Inr [VInt (- 1)], c)"
    by (simp add: unary_def)
  have s2: "py_float (VInt (- 1)) = Inr (Finite (- 1))" by (simp add: int_to_float_def)
  have s3: "negative (Finite (- 1))" by simp
  have p1: "visit h (make_names h) (UnaryOp USub (Constant (CInt 8))) c = (Inr (VInt (- 8)), c)"
    by (simp add: unary_def)
  have p2: "visit h (make_names h) (Constant (CFloat (Finite (1 / 2)))) c
              = (Inr (VFloat (Finite (1 / 2))), c)"
    by simp
  have p3: "py_float (VInt (- 8)) = Inr (Finite (- 8))" by (simp add: int_to_float_def)
  have p4: "py_float (VFloat (Finite (1 / 2))) = Inr (Finite (1 / 2))" by simp
  have p5: "is_finite (Finite (- 8))" "is_finite (Finite (1 / 2))" "negative (Finite (- 8))"
    by simp_all
  have p6: "\<not> is_integral (Finite (1 / 2))" by (simp add: floor_half)
  note sq = undefined_results
      [where h = h and c = c and ?c1.0 = c and args = "[UnaryOp USub (Constant (CInt 1))]"
        and v = "VInt (- 1)" and d = "Finite (- 1)" and kws = "[]"]
  note pw = undefined_results
      [where h = h and ns = "make_names h" and c = c and ?c1.0 = c and ?c2.0 = c
        and a = "UnaryOp USub (Constant (CInt 8))" and l = "VInt (- 8)"
        and b = "Constant (CFloat (Finite (1 / 2)))" and r = "VFloat (Finite (1 / 2))"
        and x = "Finite (- 8)" and y = "Finite (1 / 2)"]
  from sq s1 s2 s3
  have sqrt: "visit h (make_names h) (Call (Name ''sqrt'') [UnaryOp USub (Constant (CInt 1))] []) c
         = (Inl ValueError, c)"
    by blast
  from pw p1 p2 p3 p4 p5 p6
  have pow: "visit h (make_names h)
           (BinOp (UnaryOp USub (Constant (CInt 8))) Pow_op (Constant (CFloat (Finite (1 / 2))))) c
         = (case complex_power h (Finite (- 8)) (Finite (1 / 2)) of
              None \<Rightarrow> Inl OverflowError
            | Some z \<Rightarrow> Inr (VComplex (fst z) (snd z)), c)"
    by blast
  from s1 s2 s3 p1 p2 p3 p4 p5 p6 sqrt pow
  show "visit_all h (make_names h) [UnaryOp USub (Constant (CInt 1))] c = (Inr [VInt (- 1)], c)
     \<and> py_float (VInt (- 1)) = Inr (Finite (- 1)) \<and> negative (Finite (- 1))
     \<and> visit h (make_names h) (Call (Name ''sqrt'') [UnaryOp USub (Constant (CInt 1))] []) c
         = (Inl ValueError, c)
     \<and> visit h (make_names h) (UnaryOp USub (Constant (CInt 8))) c = (Inr (VInt (- 8)), c)
     \<and> visit h (make_names h) (Constant (CFloat (Finite (1 / 2)))) c = (Inr (VFloat (Finite (1 / 2))), c)
     \<and> py_float (VInt (- 8)) = Inr (Finite (- 8))
     \<and> py_float (VFloat (Finite (1 / 2))) = Inr (Finite (1 / 2))
     \<and> is_finite (Finite (- 8)) \<and> is_finite (Finite (1 / 2)) \<and> negative (Finite (- 8))
     \<and> \<not> is_integral (Finite (1 / 2))
     \<and> visit h (make_names h)
           (BinOp (UnaryOp USub (Constant (CInt 8))) Pow_op (Constant (CFloat (Finite (1 / 2))))) c
         = (case complex_power h (Finite (- 8)) (Finite (1 / 2)) of
              None \<Rightarrow> Inl OverflowError
            | Some z \<Rightarrow> Inr (VComplex (fst z) (snd z)), c)"
    by blast
qed

text \<open>
  C4 as the claim states it fails at \<^verbatim>\<open>(-8) ** 0.5\<close>: the evaluation ends in the complex
  power; it returns a complex number, or raises \<^verbatim>\<open>OverflowError\<close>, and never a
  \<^verbatim>\<open>ValueError\<close> or a \<^verbatim>\<open>SafeEvalError\<close>.
\<close>

theorem fractional_power_counterexample:
  "\<forall>h ns c.
     visit h ns (BinOp (UnaryOp USub (Constant (CInt 8))) Pow_op (Constant (CFloat (Finite (1 / 2))))) c
       = (case complex_power h (Finite (- 8)) (Finite (1 / 2)) of
            None \<Rightarrow> Inl OverflowError
          | Some z \<Rightarrow> Inr (VComplex (fst z) (snd z)), c)
     \<and> fst (visit h ns
          (BinOp (UnaryOp USub (Constant (CInt 8))) Pow_op (Constant (CFloat (Finite (1 / 2))))) c)
        \<noteq> Inl ValueError
     \<and> \<not> is_SafeEvalError (fst (visit h ns
          (BinOp (UnaryOp USub (Constant (CInt 8))) Pow_op (Constant (CFloat (Finite (1 / 2))))) c))"
  by (simp add: binary_def unary_def arith_def int_to_float_def float_pow_def floor_half
      split: option.splits)

subsection \<open>The number of arguments\<close>

text \<open>
  C5, as the code has it. A call of a name of \<^verbatim>\<open>_make_names\<close> with a number of positional
  arguments its callable does not accept raises Python's \<^verbatim>\<open>TypeError\<close>, once the
  arguments were evaluated; the evaluator counts nothing itself, and no argument is
  dropped. What a callable accepts is \<open>positional_arity\<close>: one argument, none for \<^verbatim>\<open>mem\<close>,
  and one or two for \<^verbatim>\<open>log\<close>, \<^verbatim>\<open>round\<close> and \<^verbatim>\<open>sum\<close>.
\<close>

theorem wrong_argument_count:
  assumes "map_of positional_arity name = Some (lo, hi)"
    and "visit_all h (make_names h) args c = (Inr vs, c1)"
    and "length vs < lo \<or> hi < length vs"
  shows "visit h (make_names h) (Call (Name name) args kws) c = (Inl TypeError, c1)"
  using assms
  by (auto simp: positional_arity_def make_names_def stateless_def of_degrees_def to_degrees_def
      fact_def math_sqrt_def exactly_one_def one_or_two_def builtin_sum_def get_memory_value_def
      split: if_splits list.splits)

text \<open>The theorem at \<^verbatim>\<open>sin(1,2)\<close>, \<^verbatim>\<open>mem(1)\<close> and \<^verbatim>\<open>log()\<close>.\<close>

theorem wrong_argument_count_witness:
  "\<forall>h c.
     map_of positional_arity ''sin'' = Some (1, 1)
     \<and> visit_all h (make_names h) [Constant (CInt 1), Constant (CInt 2)] c
         = (Inr [VInt 1, VInt 2], c)
     \<and> 1 < length [VInt 1, VInt 2]
     \<and> visit h (make_names h) (Call (Name ''sin'') [Constant (CInt 1), Constant (CInt 2)] []) c
         = (Inl TypeError, c)
     \<and> map_of positional_arity ''mem'' = Some (0, 0)
     \<and> visit_all h (make_names h) [Constant (CInt 1)] c = (Inr [VInt 1], c)
     \<and> visit h (make_names h) (Call (Name ''mem'') [Constant (CInt 1)] []) c = (Inl TypeError, c)
     \<and> map_of positional_arity ''log'' = Some (1, 2)
     \<and> visit_all h (make_names h) [] c = (Inr [], c)
     \<and> visit h (make_names h) (Call (Name ''log'') [] []) c = (Inl TypeError, c)"
proof (intro allI)
  fix h c
  have a1: "map_of positional_arity ''sin'' = Some (1, 1)" by (simp add: positional_arity_def)
  have a2: "map_of positional_arity ''mem'' = Some (0, 0)" by (simp add: positional_arity_def)
  have a3: "map_of positional_arity ''log'' = Some (1, 2)" by (simp add: positional_arity_def)
  have v1: "visit_all h (make_names h) [Constant (CInt 1), Constant (CInt 2)] c
         = (Inr [VInt 1, VInt 2], c)" by simp
  have v2: "visit_all h (make_names h) [Constant (CInt 1)] c = (Inr [VInt 1], c)" by simp
  have v3: "visit_all h (make_names h) [] c = (Inr [], c)" by simp
  have n1: "length [VInt 1, VInt 2] < 1 \<or> 1 < length [VInt 1, VInt 2]" by simp
  have n2: "length [VInt 1] < 0 \<or> 0 < length [VInt 1]" by simp
  have n3: "length ([] :: pyval list) < 1 \<or> 2 < length ([] :: pyval list)" by simp
  from a1 a2 a3 v1 v2 v3
    wrong_argument_count [OF a1 v1 n1, of "[]"]
    wrong_argument_count [OF a2 v2 n2, of "[]"]
    wrong_argument_count [OF a3 v3 n3, of "[]"]
  show "map_of positional_arity ''sin'' = Some (1, 1)
     \<and> visit_all h (make_names h) [Constant (CInt 1), Constant (CInt 2)] c
         = (Inr [VInt 1, VInt 2], c)
     \<and> 1 < length [VInt 1, VInt 2]
     \<and> visit h (make_names h) (Call (Name ''sin'') [Constant (CInt 1), Constant (CInt 2)] []) c
         = (Inl TypeError, c)
     \<and> map_of positional_arity ''mem'' = Some (0, 0)
     \<and> visit_all h (make_names h) [Constant (CInt 1)] c = (Inr [VInt 1], c)
     \<and> visit h (make_names h) (Call (Name ''mem'') [Constant (CInt 1)] []) c = (Inl TypeError, c)
     \<and> map_of positional_arity ''log'' = Some (1, 2)
     \<and> visit_all h (make_names h) [] c = (Inr [], c)
     \<and> visit h (make_names h) (Call (Name ''log'') [] []) c = (Inl TypeError, c)"
    by simp
qed

text \<open>
  C5 as the claim states it fails: \<^verbatim>\<open>sum\<close>, whose arity the specification gives as one,
  is called with two arguments in \<^verbatim>\<open>sum([1,2], 3)\<close> and returns 6; \<^verbatim>\<open>log(8, 2)\<close> is handed
  to \<^verbatim>\<open>math.log\<close> with both arguments; and what \<^verbatim>\<open>sin(1,2)\<close> raises is the \<^verbatim>\<open>TypeError\<close> of
  the call, not a \<^verbatim>\<open>SafeEvalError\<close>.
\<close>

theorem arity_counterexample:
  "\<forall>h c.
     visit h (make_names h)
         (Call (Name ''sum'') [List [Constant (CInt 1), Constant (CInt 2)], Constant (CInt 3)] []) c
       = (Inr (VInt 6), c)
     \<and> visit h (make_names h) (Call (Name ''log'') [Constant (CInt 8), Constant (CInt 2)] []) c
       = (library h MathLog [VInt 8, VInt 2], c)
     \<and> visit h (make_names h) (Call (Name ''sin'') [Constant (CInt 1), Constant (CInt 2)] []) c
       = (Inl TypeError, c)"
  by (simp add: make_names_def stateless_def builtin_sum_def sum_from_def arith_def
      one_or_two_def of_degrees_def)

subsection \<open>Arithmetic agrees with the reference evaluator\<close>























subsection \<open>The rewrite of \<^verbatim>\<open>mem\<close>\<close>

text \<open>
  C6 fails on the code at \<^verbatim>\<open>mem()\<close>. The loop tests that the character after \<^verbatim>\<open>mem\<close> is
  not alphanumeric, which \<^verbatim>\<open>(\<close> is not, and never that it is not \<^verbatim>\<open>(\<close>: \<^verbatim>\<open>mem()\<close> is
  rewritten to \<^verbatim>\<open>mem()()\<close>. On every host whose parser reads that text as Python's does,
  as a call of a call, \<^verbatim>\<open>evaluate("mem()")\<close> raises \<^verbatim>\<open>SafeEvalError\<close>, whatever the memory
  holds.
\<close>

theorem bare_mem_rewrite_breaks_the_call:
  "replace_bare_mem ''mem()'' = ''mem()()''
   \<and> (\<forall>h c. evaluate
          (h\<lparr>parse := \<lambda>s. if s = ''mem()()''
                          then Parsed (Expression (Call (Call (Name ''mem'') [] []) [] []))
                          else parse h s\<rparr>)
          ''mem()'' c
        = (Inl (SafeEvalError ''Only direct function calls allowed (no attributes).''), c))"
proof -
  have rw: "replace_bare_mem ''mem()'' = ''mem()()''"
    by (simp add: replace_bare_mem_def replace_loop.simps startswith_def isalnum_def)
  have rc: "replace_caret ''mem()'' = ''mem()''" by (simp add: replace_caret_def)
  from rw rc show ?thesis
    by (simp add: evaluate_def eval_expression_def)
qed

text \<open>
  The bare name in \<^verbatim>\<open>mem + 1\<close> is rewritten as intended, and the text evaluates to the
  memory plus one, in the float arithmetic of the host.
\<close>

lemma bare_mem_in_a_sum:
  "replace_bare_mem ''mem + 1'' = ''mem() + 1''
   \<and> (\<forall>h c. evaluate
          (h\<lparr>parse := \<lambda>s. if s = ''mem() + 1''
                          then Parsed (Expression (BinOp (Call (Name ''mem'') [] []) Add (Constant (CInt 1))))
                          else parse h s\<rparr>)
          ''mem + 1'' c
        = (Inr (VFloat (float_arith h Add (memory c) (Finite 1))), c))"
proof -
  have rw: "replace_bare_mem ''mem + 1'' = ''mem() + 1''"
    by (simp add: replace_bare_mem_def replace_loop.simps startswith_def isalnum_def)
  have rc: "replace_caret ''mem + 1'' = ''mem + 1''" by (simp add: replace_caret_def)
  from rw rc show ?thesis
    by (simp add: evaluate_def eval_expression_def make_names_def get_memory_value_def
        binary_def arith_def int_to_float_def)
qed

end
